theory Spec2Isabelle
  imports Complex_Main
begin

section \<open>Values the handlers exchange\<close>

text \<open>
  The handlers of \<^verbatim>\<open>backend/routers/simulate.py\<close> return JSON-like dictionaries, either
  directly or wrapped in a \<^verbatim>\<open>JSONResponse\<close> / \<^verbatim>\<open>PlainTextResponse\<close> with a status code and
  a header dictionary. Python dictionaries with string keys are association lists in
  insertion order (bodies) or maps (headers); Python's unbounded integers are \<open>int\<close>.

  Python floats (clock readings, delays) are modelled as \<open>real\<close>: rounding and the
  range of IEEE doubles are outside the model. Strings are ASCII text.
\<close>

datatype json =
    JNull
  | JBool bool
  | JInt int
  | JFloat real
  | JStr string
  | JList "json list"
  | JObj "(string \<times> json) list"

text \<open>\<open>d[k]\<close> read as an option: \<open>None\<close> where the key is absent or the value is no dictionary.\<close>

definition jget :: "string \<Rightarrow> json \<Rightarrow> json option" where
  "jget k j = (case j of JObj kvs \<Rightarrow> map_of kvs k | _ \<Rightarrow> None)"

datatype body = JsonBody json | TextBody string

definition body_get :: "string \<Rightarrow> body \<Rightarrow> json option" where
  "body_get k b = (case b of JsonBody j \<Rightarrow> jget k j | TextBody _ \<Rightarrow> None)"

record response =
  status_code :: int
  headers :: "string \<rightharpoonup> string"
  content :: body


text \<open>
  The exceptions a handler can leave with: \<^verbatim>\<open>HTTPException(status, detail)\<close>, which the
  framework turns into a response of that status, and \<^verbatim>\<open>KeyError\<close> for a dictionary
  subscript on an absent key.
\<close>

datatype error = HTTPException int string | KeyError string

text \<open>
  What a client observes of a handler's outcome: the status it is delivered with (an
  \<^verbatim>\<open>HTTPException\<close> carries its own) and, for a returned response, a header the handler set.
\<close>

definition delivered_status :: "error + response \<Rightarrow> int option" where
  "delivered_status r =
     (case r of
        Inl (HTTPException s _) \<Rightarrow> Some s
      | Inl (KeyError _) \<Rightarrow> None
      | Inr resp \<Rightarrow> Some (status_code resp))"

definition response_header :: "string \<Rightarrow> error + response \<Rightarrow> string option" where
  "response_header name r = (case r of Inl _ \<Rightarrow> None | Inr resp \<Rightarrow> headers resp name)"

section \<open>Python built-ins used by the handlers\<close>

subsection \<open>\<^verbatim>\<open>str(n)\<close> for an integer\<close>

definition digit_char :: "nat \<Rightarrow> char" where
  "digit_char d = char_of (48 + d)"

fun str_nat :: "nat \<Rightarrow> string" where
  "str_nat n = (if n < 10 then [digit_char n] else str_nat (n div 10) @ [digit_char (n mod 10)])"

declare str_nat.simps [simp del]

definition str_int :: "int \<Rightarrow> string" where
  "str_int i = (if i < 0 then CHR ''-'' # str_nat (nat (- i)) else str_nat (nat i))"

subsection \<open>\<^verbatim>\<open>str.lower()\<close> and \<^verbatim>\<open>str.replace(" ", "_")\<close>\<close>

definition lower_char :: "char \<Rightarrow> char" where
  "lower_char c =
     (let n = (of_char c :: nat)
      in if 65 \<le> n \<and> n \<le> 90 then char_of (n + 32) else c)"

definition lower :: "string \<Rightarrow> string" where
  "lower s = map lower_char s"

text \<open>Replacing a one-character pattern by a one-character string is a map over the characters.\<close>

definition replace_char :: "char \<Rightarrow> char \<Rightarrow> string \<Rightarrow> string" where
  "replace_char old new s = map (\<lambda>c. if c = old then new else c) s"

subsection \<open>\<^verbatim>\<open>int(x)\<close> for a float: truncation toward zero\<close>


section \<open>The fault catalog (\<^verbatim>\<open>utils/errors.py\<close>)\<close>

definition error_catalog :: "(int \<times> string \<times> string \<times> string) list" where
  \<open>error_catalog =
    [(400, ''Bad Request'',
        ''The request contains invalid syntax or cannot be fulfilled.'',
        ''Check your request body, query parameters, and ensure all required fields are present and properly formatted.''),
     (401, ''Unauthorized'',
        ''Authentication credentials are missing or invalid.'',
        ''Include a valid API key in the 'x-api-key' header or check your authentication token.''),
     (403, ''Forbidden'',
        ''You don't have permission to access this resource.'',
        ''Verify your account has the necessary permissions or contact support to upgrade your access level.''),
     (404, ''Not Found'',
        ''The requested endpoint or resource does not exist.'',
        ''Check the URL path and ensure you're calling the correct endpoint. Verify the resource ID exists.''),
     (422, ''Unprocessable Entity'',
        ''The request body contains invalid or missing required fields.'',
        ''Validate your JSON payload against the API schema. Check field types and required properties.''),
     (429, ''Too Many Requests'',
        ''Rate limit exceeded. You've sent too many requests in a given time period.'',
        ''Implement exponential backoff in your client. Check the 'Retry-After' header for the wait time.''),
     (500, ''Internal Server Error'',
        ''An unexpected error occurred on the server side.'',
        ''This is likely a temporary issue. Try again in a few moments or contact support if it persists.''),
     (502, ''Bad Gateway'',
        ''The server received an invalid response from an upstream server.'',
        ''This indicates a temporary server issue. Retry your request with exponential backoff.''),
     (503, ''Service Unavailable'',
        ''The service is temporarily unavailable, often due to maintenance or overload.'',
        ''Wait a few minutes and try again. Check the service status page for maintenance announcements.''),
     (504, ''Gateway Timeout'',
        ''The server didn't receive a response from an upstream server in time.'',
        ''Reduce request complexity or try again later. Consider implementing client-side timeouts.'')]\<close>

definition get_error_details :: "int \<Rightarrow> string \<times> string \<times> string" where
  "get_error_details code =
     (case map_of error_catalog code of
        None \<Rightarrow>
          (''Unknown Error'',
           ''HTTP status code '' @ str_int code @ '' was returned.'',
           ''Refer to HTTP status code documentation for this specific error.'')
      | Some entry \<Rightarrow> entry)"

section \<open>The status simulation handler\<close>

definition causes_map :: "(int \<times> string list) list" where
  "causes_map =
    [(400, [''Invalid JSON syntax'', ''Missing required fields'', ''Invalid data types'']),
     (401, [''Missing API key'', ''Invalid credentials'', ''Expired token'']),
     (403, [''Insufficient permissions'', ''Account suspended'', ''IP blocked'']),
     (404, [''Wrong endpoint URL'', ''Resource deleted'', ''Typo in path'']),
     (422, [''Validation errors'', ''Business logic violations'', ''Invalid field values'']),
     (429, [''Too many requests'', ''Rate limit exceeded'', ''Burst limit reached'']),
     (500, [''Server bug'', ''Database connection error'', ''Unhandled exception'']),
     (502, [''Upstream server error'', ''Load balancer issues'', ''Network problems'']),
     (503, [''Server maintenance'', ''Overloaded server'', ''Temporary outage'']),
     (504, [''Slow upstream response'', ''Network timeout'', ''Processing timeout''])]"

definition get_common_causes :: "int \<Rightarrow> string list" where
  "get_common_causes code =
     (case map_of causes_map code of None \<Rightarrow> [''Unknown cause''] | Some cs \<Rightarrow> cs)"

text \<open>
  \<^verbatim>\<open>simulate_status(code, include_headers)\<close>. The timestamp and the request identifier come
  from the clock and the UUID generator; they are arguments here, in the order the source
  evaluates them.
\<close>

definition simulate_status :: "int \<Rightarrow> bool \<Rightarrow> string \<Rightarrow> string \<Rightarrow> error + response" where
  "simulate_status code include_headers timestamp request_id =
     (if code < 200 \<or> code > 599 then Inl (HTTPException 400 ''Status code must be between 200-599'')
      else
        case get_error_details code of (title, message, fix) \<Rightarrow>
        let response_data = JObj
              [(''error'', JStr title),
               (''code'', JInt code),
               (''message'', JStr message),
               (''fix'', JStr fix),
               (''timestamp'', JStr timestamp),
               (''request_id'', JStr request_id),
               (''debug_info'', JObj
                  [(''endpoint'', JStr ''/simulate/status''),
                   (''parameters'', JObj [(''code'', JInt code), (''include_headers'', JBool include_headers)]),
                   (''common_causes'', JList (map JStr (get_common_causes code)))])];
            hdrs = Map.empty;
            hdrs =
              (if include_headers then
                 let hdrs = hdrs(''x-debug-mode'' \<mapsto> ''true'',
                                 ''x-request-id'' \<mapsto> request_id,
                                 ''x-error-type'' \<mapsto> replace_char CHR '' '' CHR ''_'' (lower title))
                 in if code = 429 then
                      hdrs(''retry-after'' \<mapsto> ''60'',
                           ''x-ratelimit-limit'' \<mapsto> ''100'',
                           ''x-ratelimit-remaining'' \<mapsto> ''0'')
                    else if code = 401 then hdrs(''www-authenticate'' \<mapsto> ''Bearer'')
                    else hdrs
               else hdrs)
        in Inr \<lparr>status_code = code, headers = hdrs, content = JsonBody response_data\<rparr>)"

section \<open>The malformed-JSON handler\<close>

definition json_errors :: "(string \<times> string) list" where
  \<open>json_errors =
    [(''missing_comma'', ''{"status": "error" "message": "Missing comma between properties"}''),
     (''unclosed_brace'', ''{"status": "error", "message": "Unclosed brace"''),
     (''invalid_escape'', ''{"status": "error", "message": "Invalid escape '' @ [CHR 0x5C] @ ''q sequence"}''),
     (''trailing_comma'', ''{"status": "error", "message": "Trailing comma",}''),
     (''unquoted_key'', ''{status: "error", "message": "Unquoted key"}''),
     (''single_quotes'', ''{'status': 'error', 'message': 'Single quotes instead of double'}'')]\<close>

text \<open>
  \<^verbatim>\<open>simulate_invalid_json(error_type)\<close>. The subscript \<^verbatim>\<open>json_errors[error_type]\<close> raises
  \<^verbatim>\<open>KeyError\<close> on an absent key; the model keeps that branch.
\<close>

definition simulate_invalid_json :: "string \<Rightarrow> error + response" where
  "simulate_invalid_json error_type =
     (let error_type = (if map_of json_errors error_type = None then ''missing_comma'' else error_type);
          hdrs = [''content-type'' \<mapsto> ''application/json'',
                  ''x-debug-mode'' \<mapsto> ''true'',
                  ''x-json-error-type'' \<mapsto> error_type,
                  ''x-expected-error'' \<mapsto> ''JSON parse error'']
      in case map_of json_errors error_type of
           None \<Rightarrow> Inl (KeyError error_type)
         | Some text \<Rightarrow> Inr \<lparr>status_code = 200, headers = hdrs, content = TextBody text\<rparr>)"

section \<open>The delay handler\<close>

subsection \<open>Two-decimal formatting and rounding\<close>






section \<open>The rate-limit handler\<close>







section \<open>The random fault handler\<close>

subsection \<open>\<^verbatim>\<open>str.split(",")\<close>, \<^verbatim>\<open>str.strip()\<close> and \<^verbatim>\<open>int(s)\<close>\<close>









subsection \<open>The handler\<close>

definition possible_codes :: "int list" where
  "possible_codes = [400, 401, 403, 404, 422, 429, 500, 502, 503, 504]"



section \<open>The network-error handler\<close>

definition simulate_network_error :: "string \<Rightarrow> error + response" where
  "simulate_network_error error_type =
     (if error_type = ''connection_reset'' then Inl (HTTPException 500 ''Connection reset by peer'')
      else if error_type = ''dns_failure'' then
        Inr \<lparr>status_code = 502, headers = Map.empty,
             content = JsonBody (JObj
               [(''error'', JStr ''Bad Gateway''),
                (''code'', JInt 502),
                (''message'', JStr ''DNS resolution failed for upstream service''),
                (''fix'', JStr ''Check network connectivity and DNS settings''),
                (''debug_info'', JObj
                   [(''error_type'', JStr ''dns_resolution_failure''),
                    (''common_causes'', JList
                       [JStr ''Network connectivity issues'', JStr ''DNS server problems'',
                        JStr ''Firewall blocking DNS''])])])\<rparr>
      else if error_type = ''ssl_error'' then
        Inr \<lparr>status_code = 502, headers = Map.empty,
             content = JsonBody (JObj
               [(''error'', JStr ''SSL/TLS Error''),
                (''code'', JInt 502),
                (''message'', JStr ''SSL certificate verification failed''),
                (''fix'', JStr ''Check SSL certificate validity and chain''),
                (''debug_info'', JObj
                   [(''error_type'', JStr ''ssl_verification_failure''),
                    (''common_causes'', JList
                       [JStr ''Expired certificate'', JStr ''Self-signed certificate'',
                        JStr ''Certificate chain issues''])])])\<rparr>
      else Inl (HTTPException 400 ''Unknown network error type''))"

section \<open>The claims as the specification words them\<close>



section \<open>Evaluation lemmas\<close>

lemma digit_char_eval:
  "digit_char 0 = CHR ''0''" "digit_char (Suc 0) = CHR ''1''" "digit_char 1 = CHR ''1''"
  "digit_char 2 = CHR ''2''" "digit_char 3 = CHR ''3''" "digit_char 4 = CHR ''4''"
  "digit_char 5 = CHR ''5''" "digit_char 6 = CHR ''6''" "digit_char 7 = CHR ''7''"
  "digit_char 8 = CHR ''8''" "digit_char 9 = CHR ''9''"
  by (simp_all add: digit_char_def char_of_eq_iff)

lemmas str_eval = str_int_def str_nat.simps digit_char_eval

lemmas text_eval = lower_def lower_char_def replace_char_def char_of_eq_iff

lemma catalog_keys_distinct: "distinct (map fst error_catalog)"
  by (simp add: error_catalog_def)

lemma catalog_keys: "map fst error_catalog = possible_codes"
  by (simp add: error_catalog_def possible_codes_def)

lemma get_error_details_cases:
  obtains title message fx where "get_error_details code = (title, message, fx)"
  by (cases "get_error_details code") auto

lemma simulate_status_in_range:
  assumes "200 \<le> code" and "code \<le> 599"
    and "get_error_details code = (title, message, fx)"
  shows "\<exists>body_json hdrs.
           simulate_status code include_headers timestamp request_id =
             Inr \<lparr>status_code = code, headers = hdrs, content = JsonBody body_json\<rparr>
         \<and> jget ''code'' body_json = Some (JInt code)
         \<and> jget ''error'' body_json = Some (JStr title)
         \<and> jget ''message'' body_json = Some (JStr message)
         \<and> jget ''fix'' body_json = Some (JStr fx)
         \<and> jget ''request_id'' body_json = Some (JStr request_id)"
  using assms by (simp add: simulate_status_def Let_def jget_def)

lemma simulate_status_headers:
  assumes "200 \<le> code" and "code \<le> 599"
    and "get_error_details code = (title, message, fx)"
  shows "\<exists>r. simulate_status code True timestamp request_id = Inr r
         \<and> headers r ''x-debug-mode'' = Some ''true''
         \<and> headers r ''x-request-id'' = Some request_id
         \<and> headers r ''x-error-type'' = Some (replace_char CHR '' '' CHR ''_'' (lower title))
         \<and> headers r ''retry-after'' = (if code = 429 then Some ''60'' else None)
         \<and> headers r ''x-ratelimit-limit'' = (if code = 429 then Some ''100'' else None)
         \<and> headers r ''x-ratelimit-remaining'' = (if code = 429 then Some ''0'' else None)
         \<and> headers r ''www-authenticate'' = (if code = 401 then Some ''Bearer'' else None)"
  using assms by (simp add: simulate_status_def Let_def)

section \<open>The claims\<close>

text \<open>
  C9. For every status code of the static fault catalog, \<open>get_error_details\<close> returns the
  catalog's title, message and fix for that code exactly; for every code absent from the
  catalog it returns the fallback entry, whose title is "Unknown Error" and whose message
  echoes the numeric code.
\<close>

theorem get_error_details_catalog:
  "((code, title, message, fx) \<in> set error_catalog \<longrightarrow>
      get_error_details code = (title, message, fx))
   \<and> (code \<notin> fst ` set error_catalog \<longrightarrow>
      get_error_details code =
        (''Unknown Error'',
         ''HTTP status code '' @ str_int code @ '' was returned.'',
         ''Refer to HTTP status code documentation for this specific error.''))"
proof (intro conjI impI)
  assume "(code, title, message, fx) \<in> set error_catalog"
  then have "map_of error_catalog code = Some (title, message, fx)"
    using catalog_keys_distinct by (rule_tac map_of_is_SomeI)
  then show "get_error_details code = (title, message, fx)"
    by (simp add: get_error_details_def)
next
  assume "code \<notin> fst ` set error_catalog"
  then have "map_of error_catalog code = None"
    by (simp add: map_of_eq_None_iff)
  then show "get_error_details code =
        (''Unknown Error'',
         ''HTTP status code '' @ str_int code @ '' was returned.'',
         ''Refer to HTTP status code documentation for this specific error.'')"
    by (simp add: get_error_details_def)
qed

theorem get_error_details_catalog_witness:
  "get_error_details 503 =
     (''Service Unavailable'',
      ''The service is temporarily unavailable, often due to maintenance or overload.'',
      ''Wait a few minutes and try again. Check the service status page for maintenance announcements.'')
   \<and> get_error_details 418 =
     (''Unknown Error'', ''HTTP status code 418 was returned.'',
      ''Refer to HTTP status code documentation for this specific error.'')"
proof -
  have known: "(503, ''Service Unavailable'',
      ''The service is temporarily unavailable, often due to maintenance or overload.'',
      ''Wait a few minutes and try again. Check the service status page for maintenance announcements.'')
      \<in> set error_catalog"
    by (simp add: error_catalog_def)
  have unknown: "(418::int) \<notin> fst ` set error_catalog"
    by (simp add: error_catalog_def)
  have digits: "str_int 418 = ''418''"
    by (simp add: str_eval)
  from get_error_details_catalog [of 503] known
    get_error_details_catalog [of 418] unknown digits
  show ?thesis by simp
qed

text \<open>
  C3. For every integer code in [200, 599] the status handler returns a response with that
  exact status code and a body whose \<open>code\<close> field equals it; for every code outside the
  range it raises the exception that is delivered as a 400 response, and returns no
  response.
\<close>

theorem simulate_status_code:
  "(200 \<le> code \<and> code \<le> 599 \<longrightarrow>
      (\<exists>r. simulate_status code include_headers timestamp request_id = Inr r
           \<and> status_code r = code
           \<and> body_get ''code'' (content r) = Some (JInt code)))
   \<and> (code < 200 \<or> 599 < code \<longrightarrow>
      simulate_status code include_headers timestamp request_id =
        Inl (HTTPException 400 ''Status code must be between 200-599'')
      \<and> delivered_status (simulate_status code include_headers timestamp request_id) = Some 400)"
proof (intro conjI impI)
  assume range: "200 \<le> code \<and> code \<le> 599"
  obtain title message fx where "get_error_details code = (title, message, fx)"
    by (rule get_error_details_cases)
  with range simulate_status_in_range [of code title message fx include_headers timestamp request_id]
  show "\<exists>r. simulate_status code include_headers timestamp request_id = Inr r
           \<and> status_code r = code
           \<and> body_get ''code'' (content r) = Some (JInt code)"
    by (auto simp: body_get_def)
next
  assume out: "code < 200 \<or> 599 < code"
  then show "simulate_status code include_headers timestamp request_id =
      Inl (HTTPException 400 ''Status code must be between 200-599'')"
    by (auto simp: simulate_status_def)
  then show "delivered_status (simulate_status code include_headers timestamp request_id) = Some 400"
    by (simp add: delivered_status_def)
qed

theorem simulate_status_code_witness:
  "(\<exists>r. simulate_status 204 False ''2026-01-01T00:00:00Z'' ''req_0123456789ab'' = Inr r
        \<and> status_code r = 204 \<and> body_get ''code'' (content r) = Some (JInt 204))
   \<and> simulate_status 199 True ''2026-01-01T00:00:00Z'' ''req_0123456789ab'' =
       Inl (HTTPException 400 ''Status code must be between 200-599'')
   \<and> simulate_status 600 True ''2026-01-01T00:00:00Z'' ''req_0123456789ab'' =
       Inl (HTTPException 400 ''Status code must be between 200-599'')"
  using simulate_status_code [of 204 False "''2026-01-01T00:00:00Z''" "''req_0123456789ab''"]
    simulate_status_code [of 199 True "''2026-01-01T00:00:00Z''" "''req_0123456789ab''"]
    simulate_status_code [of 600 True "''2026-01-01T00:00:00Z''" "''req_0123456789ab''"]
  by simp

text \<open>
  C5 (as amended). In the status handler, for a code in [200, 599] and \<open>include_headers\<close>
  true, the response carries \<open>x-debug-mode: true\<close>, the request identifier of the body as
  \<open>x-request-id\<close>, and \<open>x-error-type\<close> equal to the title lowercased with spaces replaced by
  underscores; for code 429 it also carries \<open>retry-after: 60\<close>, \<open>x-ratelimit-remaining: 0\<close>
  and \<open>x-ratelimit-limit: 100\<close>; for code 401 it also carries \<open>www-authenticate: Bearer\<close>.
\<close>

theorem simulate_status_debug_headers:
  "200 \<le> code \<and> code \<le> 599 \<longrightarrow>
     (\<exists>r. simulate_status code True timestamp request_id = Inr r
        \<and> headers r ''x-debug-mode'' = Some ''true''
        \<and> headers r ''x-request-id'' = Some request_id
        \<and> body_get ''request_id'' (content r) = Some (JStr request_id)
        \<and> headers r ''x-error-type'' =
            Some (replace_char CHR '' '' CHR ''_'' (lower (fst (get_error_details code))))
        \<and> (code = 429 \<longrightarrow>
              headers r ''retry-after'' = Some ''60''
            \<and> headers r ''x-ratelimit-remaining'' = Some ''0''
            \<and> headers r ''x-ratelimit-limit'' = Some ''100'')
        \<and> (code = 401 \<longrightarrow> headers r ''www-authenticate'' = Some ''Bearer''))"
proof
  assume range: "200 \<le> code \<and> code \<le> 599"
  obtain title message fx where details: "get_error_details code = (title, message, fx)"
    by (rule get_error_details_cases)
  from range details
    simulate_status_headers [of code title message fx timestamp request_id]
    simulate_status_in_range [of code title message fx True timestamp request_id]
  show "\<exists>r. simulate_status code True timestamp request_id = Inr r
        \<and> headers r ''x-debug-mode'' = Some ''true''
        \<and> headers r ''x-request-id'' = Some request_id
        \<and> body_get ''request_id'' (content r) = Some (JStr request_id)
        \<and> headers r ''x-error-type'' =
            Some (replace_char CHR '' '' CHR ''_'' (lower (fst (get_error_details code))))
        \<and> (code = 429 \<longrightarrow>
              headers r ''retry-after'' = Some ''60''
            \<and> headers r ''x-ratelimit-remaining'' = Some ''0''
            \<and> headers r ''x-ratelimit-limit'' = Some ''100'')
        \<and> (code = 401 \<longrightarrow> headers r ''www-authenticate'' = Some ''Bearer'')"
    by (auto simp: body_get_def)
qed

theorem simulate_status_debug_headers_witness:
  "(\<exists>r. simulate_status 429 True ''2026-01-01T00:00:00Z'' ''req_0123456789ab'' = Inr r
       \<and> headers r ''x-debug-mode'' = Some ''true''
       \<and> headers r ''x-request-id'' = Some ''req_0123456789ab''
       \<and> headers r ''x-error-type'' = Some ''too_many_requests''
       \<and> headers r ''retry-after'' = Some ''60''
       \<and> headers r ''x-ratelimit-remaining'' = Some ''0''
       \<and> headers r ''x-ratelimit-limit'' = Some ''100'')
   \<and> (\<exists>r. simulate_status 401 True ''2026-01-01T00:00:00Z'' ''req_0123456789ab'' = Inr r
       \<and> headers r ''x-error-type'' = Some ''unauthorized''
       \<and> headers r ''www-authenticate'' = Some ''Bearer'')
   \<and> (\<exists>r. simulate_status 418 True ''2026-01-01T00:00:00Z'' ''req_0123456789ab'' = Inr r
       \<and> headers r ''x-error-type'' = Some ''unknown_error'')"
proof -
  have slug:
    "replace_char CHR '' '' CHR ''_'' (lower (fst (get_error_details 429))) = ''too_many_requests''"
    "replace_char CHR '' '' CHR ''_'' (lower (fst (get_error_details 401))) = ''unauthorized''"
    "replace_char CHR '' '' CHR ''_'' (lower (fst (get_error_details 418))) = ''unknown_error''"
    by (simp_all add: get_error_details_def error_catalog_def text_eval)
  from simulate_status_debug_headers [of 429 "''2026-01-01T00:00:00Z''" "''req_0123456789ab''"]
    simulate_status_debug_headers [of 401 "''2026-01-01T00:00:00Z''" "''req_0123456789ab''"]
    simulate_status_debug_headers [of 418 "''2026-01-01T00:00:00Z''" "''req_0123456789ab''"]
  show ?thesis
    unfolding slug by auto
qed

text \<open>
  The claim as written calls the rate-limit headers of the 429 response zeroed. The limit
  header is 100; only the remaining quota is 0.
\<close>

theorem simulate_status_429_limit_header:
  "response_header ''x-ratelimit-limit''
      (simulate_status 429 True ''2026-01-01T00:00:00Z'' ''req_0123456789ab'') = Some ''100''
   \<and> response_header ''x-ratelimit-limit''
      (simulate_status 429 True ''2026-01-01T00:00:00Z'' ''req_0123456789ab'') \<noteq> Some ''0''"
  by (simp add: response_header_def simulate_status_def get_error_details_def error_catalog_def Let_def)

text \<open>
  C7. For every \<open>error_type\<close> string the malformed-JSON handler returns status 200 with
  \<open>content-type: application/json\<close> and one of the literal bodies of its table, raising
  nothing; a value outside the six enumerated names is answered as \<open>missing_comma\<close> is; and
  for \<open>missing_comma\<close> the body is exactly the literal with the comma left out.
\<close>

theorem simulate_invalid_json_literal:
  \<open>\<exists>r lit. simulate_invalid_json error_type = Inr r
      \<and> status_code r = 200
      \<and> headers r ''content-type'' = Some ''application/json''
      \<and> content r = TextBody lit
      \<and> map_of json_errors
           (if error_type \<in> set [''missing_comma'', ''unclosed_brace'', ''invalid_escape'',
                                  ''trailing_comma'', ''unquoted_key'', ''single_quotes'']
            then error_type else ''missing_comma'') = Some lit
      \<and> (error_type \<notin> set [''missing_comma'', ''unclosed_brace'', ''invalid_escape'',
                              ''trailing_comma'', ''unquoted_key'', ''single_quotes''] \<longrightarrow>
            simulate_invalid_json error_type = simulate_invalid_json ''missing_comma'')
      \<and> (error_type = ''missing_comma''
           \<or> error_type \<notin> set [''missing_comma'', ''unclosed_brace'', ''invalid_escape'',
                                  ''trailing_comma'', ''unquoted_key'', ''single_quotes''] \<longrightarrow>
            lit = ''{"status": "error" "message": "Missing comma between properties"}'')\<close>
proof -
  have keys: "map fst json_errors =
      [''missing_comma'', ''unclosed_brace'', ''invalid_escape'',
       ''trailing_comma'', ''unquoted_key'', ''single_quotes'']"
    by (simp add: json_errors_def)
  show ?thesis
  proof (cases "error_type \<in> set (map fst json_errors)")
    case True
    then obtain lit where found: "map_of json_errors error_type = Some lit"
      by (metis map_of_eq_None_iff not_Some_eq set_map)
    from True have listed: "error_type \<in> set [''missing_comma'', ''unclosed_brace'',
        ''invalid_escape'', ''trailing_comma'', ''unquoted_key'', ''single_quotes'']"
      unfolding keys .
    have first: \<open>error_type = ''missing_comma'' \<Longrightarrow>
        lit = ''{"status": "error" "message": "Missing comma between properties"}''\<close>
      using found by (simp add: json_errors_def)
    from found listed first show ?thesis
      by (simp add: simulate_invalid_json_def Let_def)
  next
    case False
    then have absent: "map_of json_errors error_type = None"
      by (simp add: map_of_eq_None_iff)
    from False have unlisted: "error_type \<notin> set [''missing_comma'', ''unclosed_brace'',
        ''invalid_escape'', ''trailing_comma'', ''unquoted_key'', ''single_quotes'']"
      unfolding keys .
    have fallback: \<open>map_of json_errors ''missing_comma'' =
        Some ''{"status": "error" "message": "Missing comma between properties"}''\<close>
      by (simp add: json_errors_def)
    from absent unlisted fallback show ?thesis
      by (simp add: simulate_invalid_json_def Let_def)
  qed
qed

theorem simulate_invalid_json_literal_witness:
  \<open>(\<exists>r. simulate_invalid_json ''no_such_type'' = Inr r
       \<and> status_code r = 200
       \<and> headers r ''content-type'' = Some ''application/json''
       \<and> content r = TextBody ''{"status": "error" "message": "Missing comma between properties"}'')
   \<and> (\<exists>r. simulate_invalid_json ''trailing_comma'' = Inr r
       \<and> status_code r = 200
       \<and> content r = TextBody ''{"status": "error", "message": "Trailing comma",}'')\<close>
proof -
  have entry: \<open>map_of json_errors ''trailing_comma'' =
      Some ''{"status": "error", "message": "Trailing comma",}''\<close>
    by (simp add: json_errors_def)
  from simulate_invalid_json_literal [of "''no_such_type''"]
    simulate_invalid_json_literal [of "''trailing_comma''"] entry
  show ?thesis by auto
qed

text \<open>
  C8. The network-error handler, for every \<open>error_type\<close> string: on \<open>connection_reset\<close> it
  raises the exception delivered as 500 with detail "Connection reset by peer"; on
  \<open>dns_failure\<close> it returns a 502 body whose \<open>debug_info.error_type\<close> is
  \<open>dns_resolution_failure\<close>, with a fixed list of common causes; on \<open>ssl_error\<close> it returns
  a 502 body describing the failed certificate verification, with a fixed list of common
  causes; on any other value it raises the exception delivered as 400 with detail
  "Unknown network error type".
\<close>

theorem simulate_network_error_cases:
  "simulate_network_error ''connection_reset'' = Inl (HTTPException 500 ''Connection reset by peer'')
   \<and> (\<exists>r. simulate_network_error ''dns_failure'' = Inr r
        \<and> status_code r = 502
        \<and> body_get ''code'' (content r) = Some (JInt 502)
        \<and> body_get ''message'' (content r) = Some (JStr ''DNS resolution failed for upstream service'')
        \<and> Option.bind (body_get ''debug_info'' (content r)) (jget ''error_type'') =
             Some (JStr ''dns_resolution_failure'')
        \<and> Option.bind (body_get ''debug_info'' (content r)) (jget ''common_causes'') =
             Some (JList [JStr ''Network connectivity issues'', JStr ''DNS server problems'',
                          JStr ''Firewall blocking DNS'']))
   \<and> (\<exists>r. simulate_network_error ''ssl_error'' = Inr r
        \<and> status_code r = 502
        \<and> body_get ''code'' (content r) = Some (JInt 502)
        \<and> body_get ''message'' (content r) = Some (JStr ''SSL certificate verification failed'')
        \<and> Option.bind (body_get ''debug_info'' (content r)) (jget ''error_type'') =
             Some (JStr ''ssl_verification_failure'')
        \<and> Option.bind (body_get ''debug_info'' (content r)) (jget ''common_causes'') =
             Some (JList [JStr ''Expired certificate'', JStr ''Self-signed certificate'',
                          JStr ''Certificate chain issues'']))
   \<and> (error_type \<notin> {''connection_reset'', ''dns_failure'', ''ssl_error''} \<longrightarrow>
        simulate_network_error error_type = Inl (HTTPException 400 ''Unknown network error type'')
        \<and> delivered_status (simulate_network_error error_type) = Some 400)"
proof (intro conjI impI)
  show "simulate_network_error ''connection_reset'' =
      Inl (HTTPException 500 ''Connection reset by peer'')"
    by (simp add: simulate_network_error_def)
next
  show "\<exists>r. simulate_network_error ''dns_failure'' = Inr r
        \<and> status_code r = 502
        \<and> body_get ''code'' (content r) = Some (JInt 502)
        \<and> body_get ''message'' (content r) = Some (JStr ''DNS resolution failed for upstream service'')
        \<and> Option.bind (body_get ''debug_info'' (content r)) (jget ''error_type'') =
             Some (JStr ''dns_resolution_failure'')
        \<and> Option.bind (body_get ''debug_info'' (content r)) (jget ''common_causes'') =
             Some (JList [JStr ''Network connectivity issues'', JStr ''DNS server problems'',
                          JStr ''Firewall blocking DNS''])"
    by (simp add: simulate_network_error_def body_get_def jget_def)
next
  show "\<exists>r. simulate_network_error ''ssl_error'' = Inr r
        \<and> status_code r = 502
        \<and> body_get ''code'' (content r) = Some (JInt 502)
        \<and> body_get ''message'' (content r) = Some (JStr ''SSL certificate verification failed'')
        \<and> Option.bind (body_get ''debug_info'' (content r)) (jget ''error_type'') =
             Some (JStr ''ssl_verification_failure'')
        \<and> Option.bind (body_get ''debug_info'' (content r)) (jget ''common_causes'') =
             Some (JList [JStr ''Expired certificate'', JStr ''Self-signed certificate'',
                          JStr ''Certificate chain issues''])"
    by (simp add: simulate_network_error_def body_get_def jget_def)
next
  assume other: "error_type \<notin> {''connection_reset'', ''dns_failure'', ''ssl_error''}"
  then show unknown: "simulate_network_error error_type =
      Inl (HTTPException 400 ''Unknown network error type'')"
    by (simp add: simulate_network_error_def)
  show "delivered_status (simulate_network_error error_type) = Some 400"
    by (simp add: unknown delivered_status_def)
qed

theorem simulate_network_error_cases_witness:
  "simulate_network_error ''timeout'' = Inl (HTTPException 400 ''Unknown network error type'')
   \<and> simulate_network_error [] = Inl (HTTPException 400 ''Unknown network error type'')
   \<and> delivered_status (simulate_network_error ''dns_failure'') = Some 502"
  using simulate_network_error_cases [of "''timeout''"] simulate_network_error_cases [of "[]"]
  by (auto simp: delivered_status_def)



section \<open>The random fault handler's pool\<close>













section \<open>The rate-limit handler's bookkeeping\<close>













end
